theory Spec2Isabelle
  imports Main "HOL-Library.Countable" "HOL-Library.Finite_Map" "HOL-Library.Char_ord"
    "HOL-Library.List_Lexorder"
begin

section \<open>The TTL cache\<close>

text \<open>
  \<^verbatim>\<open>class Cache\<close> holds a JavaScript \<^verbatim>\<open>Map\<close> from keys to items
  \<^verbatim>\<open>{data, timestamp}\<close> and one \<^verbatim>\<open>ttl\<close>.  The \<^verbatim>\<open>Map\<close> is a finite map with
  at most one item per key; \<^verbatim>\<open>Map.size\<close> is the number of its keys.  \<^verbatim>\<open>Date.now()\<close> is
  read from the clock, so each operation that reads it takes the reading as an argument
  (milliseconds, an integer).  \<^verbatim>\<open>ttl\<close> is \<^verbatim>\<open>parseInt(process.env.CACHE_TTL) || 300000\<close>,
  an integer that may be negative.
\<close>

record 'v item =
  data :: 'v
  timestamp :: int

record 'v Cache =
  cache :: "(string, 'v item) fmap"
  ttl :: int

text \<open>\<^verbatim>\<open>new Cache(ttl)\<close>\<close>

definition new_Cache :: "int \<Rightarrow> 'v Cache" where
  "new_Cache t = \<lparr>cache = fmempty, ttl = t\<rparr>"

text \<open>
  \<^verbatim>\<open>get(key)\<close> returns \<^verbatim>\<open>null\<close> (here \<open>None\<close>) or \<^verbatim>\<open>item.data\<close>, and may delete the
  item; the result is paired with the cache after the call.  An item is an object, hence
  truthy, so \<^verbatim>\<open>!item\<close> holds exactly when the key has no item.
\<close>

definition Cache_get :: "'v Cache \<Rightarrow> string \<Rightarrow> int \<Rightarrow> 'v option \<times> 'v Cache" where
  "Cache_get c key now =
     (case fmlookup (cache c) key of
        None \<Rightarrow> (None, c)
      | Some item \<Rightarrow>
          if now - timestamp item > ttl c
          then (None, c\<lparr>cache := fmdrop key (cache c)\<rparr>)
          else (Some (data item), c))"

definition Cache_set :: "'v Cache \<Rightarrow> string \<Rightarrow> 'v \<Rightarrow> int \<Rightarrow> 'v Cache" where
  "Cache_set c key d now = c\<lparr>cache := fmupd key \<lparr>data = d, timestamp = now\<rparr> (cache c)\<rparr>"

definition Cache_clear :: "'v Cache \<Rightarrow> 'v Cache" where
  "Cache_clear c = c\<lparr>cache := fmempty\<rparr>"

definition Cache_size :: "'v Cache \<Rightarrow> nat" where
  "Cache_size c = fcard (fmdom (cache c))"

section \<open>JavaScript values\<close>

text \<open>
  A JavaScript number is a double: not-a-number, an infinity or a finite value.  Every finite
  double is a rational, and the model admits every rational, so what is proved for all
  numbers holds for all doubles; \<open>-0\<close> is \<open>0\<close>, from which no test below tells it apart.
\<close>

datatype number = NaN | Fin rat | PosInfinity | NegInfinity

text \<open>
  The values that \<^verbatim>\<open>res.json()\<close> produces and that property reads on them return.  An
  object is the list of its own properties in the order \<^verbatim>\<open>Object.keys\<close> enumerates them
  (keys distinct); \<open>JUndefined\<close> is the result of reading a property that is not there.
\<close>

datatype jsval =
    JUndefined
  | JNull
  | JBool bool
  | JNum number
  | JStr string
  | JArr "jsval list"
  | JObj "(string \<times> jsval) list"

text \<open>
  A thrown value.  Everything thrown here is an \<^verbatim>\<open>Error\<close> (or a subclass), and the code
  reads only its \<^verbatim>\<open>message\<close>.
\<close>

datatype jserror = Error (message: string)

text \<open>
  What the platform supplies and the program only calls: the configuration read at start-up
  and two library functions on doubles, whose results no property below looks into:
  \<^verbatim>\<open>parseFloat\<close> on a string, and the printing of a number.  \<^verbatim>\<open>API_KEY\<close> is
  \<^verbatim>\<open>undefined\<close> (here \<open>None\<close>) when the variable is not set.
\<close>

record env =
  API_KEY :: "string option"
  DEMO_MODE :: bool
  parseFloat_text :: "string \<Rightarrow> number"
  numberToString :: "number \<Rightarrow> string"

text \<open>Running a step that may throw after one that may throw.\<close>

definition andThen :: "'e + 'a \<Rightarrow> ('a \<Rightarrow> 'e + 'b) \<Rightarrow> 'e + 'b" where
  "andThen r f = (case r of Inl e \<Rightarrow> Inl e | Inr x \<Rightarrow> f x)"

text \<open>\<^verbatim>\<open>xs.map(f)\<close> where \<open>f\<close> may throw: the first throw ends the call.\<close>

fun mapThrow :: "('a \<Rightarrow> 'e + 'b) \<Rightarrow> 'a list \<Rightarrow> 'e + 'b list" where
  "mapThrow f [] = Inr []"
| "mapThrow f (x # xs) =
     (case f x of
        Inl e \<Rightarrow> Inl e
      | Inr y \<Rightarrow> (case mapThrow f xs of Inl e \<Rightarrow> Inl e | Inr ys \<Rightarrow> Inr (y # ys)))"

text \<open>The decimal digits of a non-negative integer, as a template literal prints it.\<close>

fun string_of_nat :: "nat \<Rightarrow> string" where
  "string_of_nat n =
     (if n < 10 then [''0123456789'' ! n]
      else string_of_nat (n div 10) @ [''0123456789'' ! (n mod 10)])"

text \<open>
  The string that a template literal \<^verbatim>\<open>${v}\<close> inserts for a value, and to which
  \<^verbatim>\<open>parseFloat(v)\<close> converts its argument first.  An array joins its elements with
  commas, \<^verbatim>\<open>null\<close> and \<^verbatim>\<open>undefined\<close> elements printing as nothing.  An object prints as
  \<^verbatim>\<open>[object Object]\<close> through the inherited \<^verbatim>\<open>toString\<close>; an own property
  \<^verbatim>\<open>toString\<close>, which in parsed JSON is never a function, hides the inherited one, and
  the conversion throws a \<^verbatim>\<open>TypeError\<close>.
\<close>

fun ToString :: "env \<Rightarrow> jsval \<Rightarrow> jserror + string"
  and join_elements :: "env \<Rightarrow> jsval list \<Rightarrow> jserror + string" where
  "ToString env JUndefined = Inr ''undefined''"
| "ToString env JNull = Inr ''null''"
| "ToString env (JBool b) = Inr (if b then ''true'' else ''false'')"
| "ToString env (JNum n) = Inr (numberToString env n)"
| "ToString env (JStr s) = Inr s"
| "ToString env (JArr xs) = join_elements env xs"
| "ToString env (JObj kvs) =
     (if map_of kvs ''toString'' = None then Inr ''[object Object]''
      else Inl (Error ''Cannot convert object to primitive value''))"
| "join_elements env [] = Inr []"
| "join_elements env (x # xs) =
     andThen (if x = JNull \<or> x = JUndefined then Inr [] else ToString env x) (\<lambda>s.
     if xs = [] then Inr s
     else andThen (join_elements env xs) (\<lambda>rest. Inr (s @ '','' @ rest)))"

text \<open>\<^verbatim>\<open>parseFloat(v)\<close>\<close>

definition parseFloat :: "env \<Rightarrow> jsval \<Rightarrow> jserror + number" where
  "parseFloat env v = andThen (ToString env v) (\<lambda>s. Inr (parseFloat_text env s))"

text \<open>Truthiness, as \<^verbatim>\<open>if (v)\<close> and \<^verbatim>\<open>!v\<close> test it.\<close>

fun truthy :: "jsval \<Rightarrow> bool" where
  "truthy JUndefined = False"
| "truthy JNull = False"
| "truthy (JBool b) = b"
| "truthy (JNum n) = (n \<noteq> NaN \<and> n \<noteq> Fin 0)"
| "truthy (JStr s) = (s \<noteq> [])"
| "truthy (JArr xs) = True"
| "truthy (JObj kvs) = True"

text \<open>
  Reading a property \<^verbatim>\<open>v.name\<close> or \<^verbatim>\<open>v[name]\<close>.  On \<^verbatim>\<open>null\<close> and
  \<^verbatim>\<open>undefined\<close> the read throws a \<^verbatim>\<open>TypeError\<close> (the message is V8's).  The program
  reads the names \<^verbatim>\<open>status message code values Note datetime open high low close\<close>,
  \<^verbatim>\<open>"Error Message"\<close>, \<^verbatim>\<open>"1. open"\<close> to \<^verbatim>\<open>"4. close"\<close>, and an own key of an object:
  none is an own property of an array, a string, a number or a boolean, so those reads give
  \<^verbatim>\<open>undefined\<close>.  One is inherited: \<^verbatim>\<open>values\<close> of an array is the function
  \<^verbatim>\<open>Array.prototype.values\<close>, which is truthy and not an array, so the test at line 99
  treats it as it treats \<^verbatim>\<open>undefined\<close>.
\<close>

definition TypeError_read :: "string \<Rightarrow> string \<Rightarrow> jserror" where
  "TypeError_read what name =
     Error (''Cannot read properties of '' @ what @ '' (reading '' @ [CHR 0x27] @ name
            @ [CHR 0x27] @ '')'')"

fun read_prop :: "jsval \<Rightarrow> string \<Rightarrow> jserror + jsval" where
  "read_prop JUndefined name = Inl (TypeError_read ''undefined'' name)"
| "read_prop JNull name = Inl (TypeError_read ''null'' name)"
| "read_prop (JObj kvs) name = Inr (case map_of kvs name of None \<Rightarrow> JUndefined | Some v \<Rightarrow> v)"
| "read_prop v name = Inr JUndefined"

text \<open>
  \<^verbatim>\<open>Object.entries(v)\<close> and \<^verbatim>\<open>Object.keys(v)\<close>: the own enumerable properties; an array
  and a string have their indices, a number and a boolean have none, \<^verbatim>\<open>null\<close> and
  \<^verbatim>\<open>undefined\<close> throw.
\<close>

fun Object_entries :: "jsval \<Rightarrow> jserror + (string \<times> jsval) list" where
  "Object_entries JUndefined = Inl (Error ''Cannot convert undefined or null to object'')"
| "Object_entries JNull = Inl (Error ''Cannot convert undefined or null to object'')"
| "Object_entries (JObj kvs) = Inr kvs"
| "Object_entries (JArr xs) = Inr (zip (map string_of_nat [0..<length xs]) xs)"
| "Object_entries (JStr s) = Inr (zip (map string_of_nat [0..<length s]) (map (\<lambda>c. JStr [c]) s))"
| "Object_entries v = Inr []"

definition Object_keys :: "jsval \<Rightarrow> jserror + string list" where
  "Object_keys v = andThen (Object_entries v) (\<lambda>kvs. Inr (map fst kvs))"

text \<open>\<^verbatim>\<open>s.includes(sub)\<close>\<close>

fun str_includes :: "string \<Rightarrow> string \<Rightarrow> bool" where
  "str_includes [] sub = (sub = [])"
| "str_includes (c # cs) sub = (take (length sub) (c # cs) = sub \<or> str_includes cs sub)"

section \<open>Candles and the upstream response\<close>

record candle =
  time :: jsval
  "open" :: number
  high :: number
  low :: number
  close :: number

text \<open>
  What \<^verbatim>\<open>await fetch(url, {timeout: 10000})\<close> gives: a rejection (network failure,
  timeout) or a response, whose \<^verbatim>\<open>json()\<close> in turn rejects (body not JSON) or gives the
  parsed value.  \<^verbatim>\<open>res.ok\<close> is the library's test on the status.
\<close>

record response =
  status :: nat
  statusText :: string
  json :: "jserror + jsval"

datatype fetched = Rejected jserror | Resolved response

definition ok :: "response \<Rightarrow> bool" where
  "ok res = (200 \<le> status res \<and> status res < 300)"

text \<open>
  What the world outside answers during one call: the network (asked at most once), the
  readings of \<^verbatim>\<open>Date.now()\<close> in \<^verbatim>\<open>cache.get\<close> and in \<^verbatim>\<open>cache.set\<close> and in the
  \<open>i\<close>-th round of the demo generator, and the \<open>n\<close>-th result of \<^verbatim>\<open>Math.random()\<close>, a
  number in $[0, 1)$.  Between the two cache operations the call is suspended in
  \<^verbatim>\<open>await\<close>; the model runs one call at a time, no other call in between.
\<close>

record io =
  net :: "string \<Rightarrow> fetched"
  now_get :: int
  now_set :: int
  now_demo :: "nat \<Rightarrow> int"
  random :: "nat \<Rightarrow> rat"

text \<open>The effects of a call, in the order in which the code performs them.\<close>

datatype event = CacheGet string | NetworkCall string | CacheSet string | DemoGenerated


section \<open>The Twelve Data client\<close>

text \<open>The text that \<^verbatim>\<open>${API_KEY}\<close> inserts into a URL.\<close>

definition key_text :: "env \<Rightarrow> string" where
  "key_text env = (case API_KEY env of None \<Rightarrow> ''undefined'' | Some k \<Rightarrow> k)"

definition intervalMap :: "(string \<times> string) list" where
  "intervalMap = [(''daily'', ''1day''), (''60min'', ''1h''), (''15min'', ''15min'')]"

text \<open>
  \<^verbatim>\<open>pair.slice(0, 3)\<close> and \<^verbatim>\<open>pair.slice(3, 6)\<close> take what characters there are.  The
  callers pass one of the three keys of \<^verbatim>\<open>intervalMap\<close>; any other name that
  \<^verbatim>\<open>Object.prototype\<close> does not define is used as it is.
\<close>

definition twelveDataUrl :: "env \<Rightarrow> string \<Rightarrow> string \<Rightarrow> string" where
  "twelveDataUrl env pair interval =
     (let symbol = take 3 pair @ ''/'' @ take 3 (drop 3 pair);
          mappedInterval = (case map_of intervalMap interval of Some m \<Rightarrow> m | None \<Rightarrow> interval)
      in ''https://api.twelvedata.com/time_series?symbol='' @ symbol @ ''&interval=''
         @ mappedInterval @ ''&outputsize=100&apikey='' @ key_text env)"

text \<open>The arrow function of lines 105 to 111, on one element of \<^verbatim>\<open>data.values\<close>.\<close>

definition toCandle :: "env \<Rightarrow> jsval \<Rightarrow> jserror + candle" where
  "toCandle env item =
     andThen (read_prop item ''datetime'') (\<lambda>datetime.
     andThen (andThen (read_prop item ''open'') (parseFloat env)) (\<lambda>opn.
     andThen (andThen (read_prop item ''high'') (parseFloat env)) (\<lambda>hi.
     andThen (andThen (read_prop item ''low'') (parseFloat env)) (\<lambda>lo.
     andThen (andThen (read_prop item ''close'') (parseFloat env)) (\<lambda>cls.
     Inr \<lparr>time = datetime, open = opn, high = hi, low = lo, close = cls\<rparr>)))))"

text \<open>
  The \<^verbatim>\<open>try\<close> block of \<^verbatim>\<open>fetchCandles\<close>, lines 79 to 114, up to \<^verbatim>\<open>result\<close>: the tests
  in the order of the source.  \<open>Inl\<close> is what the block throws.
\<close>

definition fetchCandles_try :: "env \<Rightarrow> fetched \<Rightarrow> jserror + candle list" where
  "fetchCandles_try env answer =
     (case answer of
        Rejected e \<Rightarrow> Inl e
      | Resolved res \<Rightarrow>
          if \<not> ok res
          then Inl (Error (''HTTP '' @ string_of_nat (status res) @ '': '' @ statusText res))
          else
            andThen (json res) (\<lambda>data.
            andThen (read_prop data ''status'') (\<lambda>st.
            if st = JStr ''error''
            then andThen (read_prop data ''message'') (\<lambda>m.
                 andThen (ToString env m) (\<lambda>text.
                   Inl (Error (''API_ERROR: '' @ text))))
            else
              andThen (read_prop data ''code'') (\<lambda>code.
              if code = JNum (Fin 429) then Inl (Error ''API_LIMIT_REACHED'')
              else
                andThen (read_prop data ''values'') (\<lambda>values.
                case values of
                  JArr items \<Rightarrow>
                    andThen (mapThrow (toCandle env) items) (\<lambda>candles. Inr (rev candles))
                | _ \<Rightarrow> Inl (Error ''NO_TIME_SERIES_DATA''))))))"

text \<open>The \<^verbatim>\<open>catch\<close> block, lines 121 to 129: what it throws in turn.\<close>

definition fetchCandles_catch :: "jserror \<Rightarrow> jserror" where
  "fetchCandles_catch e =
     (if message e = ''API_LIMIT_REACHED'' then Error ''API_LIMIT'' else e)"

text \<open>The cache key of line 72, \<^verbatim>\<open>`${pair}-${interval}`\<close>.\<close>

definition cacheKey :: "string \<Rightarrow> string \<Rightarrow> string" where
  "cacheKey pair interval = pair @ ''-'' @ interval"

text \<open>
  \<^verbatim>\<open>fetchCandles(url, pair, interval)\<close>: what it returns or throws, the cache after the
  call, and its effects.  A cached value is an array, hence truthy, so \<^verbatim>\<open>if (cached)\<close>
  holds exactly on a hit.
\<close>

definition fetchCandles ::
  "env \<Rightarrow> io \<Rightarrow> candle list Cache \<Rightarrow> string \<Rightarrow> string \<Rightarrow> string
     \<Rightarrow> (jserror + candle list) \<times> candle list Cache \<times> event list" where
  "fetchCandles env w c url pair interval =
     (let key = cacheKey pair interval;
          (cached, c1) = Cache_get c key (now_get w)
      in case cached of
           Some hit \<Rightarrow> (Inr hit, c1, [CacheGet key])
         | None \<Rightarrow>
             (case fetchCandles_try env (net w url) of
                Inl e \<Rightarrow> (Inl (fetchCandles_catch e), c1, [CacheGet key, NetworkCall url])
              | Inr result \<Rightarrow>
                  (Inr result, Cache_set c1 key result (now_set w),
                   [CacheGet key, NetworkCall url, CacheSet key])))"

section \<open>The AlphaVantage client\<close>

definition alphaUrl :: "env \<Rightarrow> string \<Rightarrow> string \<Rightarrow> string" where
  "alphaUrl env pair interval =
     (let base = take 3 pair;
          quote = take 3 (drop 3 pair)
      in if interval = ''daily''
         then ''https://www.alphavantage.co/query?function=FX_DAILY&from_symbol='' @ base
              @ ''&to_symbol='' @ quote @ ''&apikey='' @ key_text env
         else ''https://www.alphavantage.co/query?function=FX_INTRADAY&from_symbol='' @ base
              @ ''&to_symbol='' @ quote @ ''&interval='' @ interval @ ''&apikey=''
              @ key_text env)"

text \<open>The arrow function of lines 430 to 436, on one entry of the series.\<close>

definition toCandle_alpha :: "env \<Rightarrow> string \<times> jsval \<Rightarrow> jserror + candle" where
  "toCandle_alpha env entry =
     (case entry of (t, ohlc) \<Rightarrow>
        andThen (andThen (read_prop ohlc ''1. open'') (parseFloat env)) (\<lambda>opn.
        andThen (andThen (read_prop ohlc ''2. high'') (parseFloat env)) (\<lambda>hi.
        andThen (andThen (read_prop ohlc ''3. low'') (parseFloat env)) (\<lambda>lo.
        andThen (andThen (read_prop ohlc ''4. close'') (parseFloat env)) (\<lambda>cls.
        Inr \<lparr>time = JStr t, open = opn, high = hi, low = lo, close = cls\<rparr>)))))"

text \<open>
  The \<^verbatim>\<open>try\<close> block, lines 405 to 438.  A key found by \<^verbatim>\<open>find\<close> contains
  \<^verbatim>\<open>"Time Series"\<close>; the indices of an array or of a string do not, so \<^verbatim>\<open>data[key]\<close> is
  read on an object only.
\<close>

definition fetchCandles_alpha_try :: "env \<Rightarrow> fetched \<Rightarrow> jserror + candle list" where
  "fetchCandles_alpha_try env answer =
     (case answer of
        Rejected e \<Rightarrow> Inl e
      | Resolved res \<Rightarrow>
          if \<not> ok res
          then Inl (Error (''HTTP '' @ string_of_nat (status res) @ '': '' @ statusText res))
          else
            andThen (json res) (\<lambda>data.
            andThen (read_prop data ''Note'') (\<lambda>note.
            if truthy note then Inl (Error ''API_LIMIT_REACHED'')
            else
              andThen (read_prop data ''Error Message'') (\<lambda>msg.
              if truthy msg
              then andThen (ToString env msg) (\<lambda>text. Inl (Error (''API_ERROR: '' @ text)))
              else
                andThen (Object_keys data) (\<lambda>keys.
                case find (\<lambda>k. str_includes k ''Time Series'') keys of
                  None \<Rightarrow> Inl (Error ''NO_TIME_SERIES_DATA'')
                | Some key \<Rightarrow>
                    if key = [] then Inl (Error ''NO_TIME_SERIES_DATA'')
                    else
                      andThen (read_prop data key) (\<lambda>series.
                      andThen (Object_entries series) (\<lambda>entries.
                      andThen (mapThrow (toCandle_alpha env) entries) (\<lambda>candles.
                      Inr (rev candles)))))))))"

text \<open>\<^verbatim>\<open>fetchCandles(url)\<close> of the AlphaVantage server; the cache key is the URL.\<close>

definition fetchCandles_alpha ::
  "env \<Rightarrow> io \<Rightarrow> candle list Cache \<Rightarrow> string
     \<Rightarrow> (jserror + candle list) \<times> candle list Cache \<times> event list" where
  "fetchCandles_alpha env w c url =
     (let key = url;
          (cached, c1) = Cache_get c key (now_get w)
      in case cached of
           Some hit \<Rightarrow> (Inr hit, c1, [CacheGet key])
         | None \<Rightarrow>
             (case fetchCandles_alpha_try env (net w url) of
                Inl e \<Rightarrow> (Inl (fetchCandles_catch e), c1, [CacheGet key, NetworkCall url])
              | Inr result \<Rightarrow>
                  (Inr result, Cache_set c1 key result (now_set w),
                   [CacheGet key, NetworkCall url, CacheSet key])))"

section \<open>The demo generator\<close>

text \<open>
  The generator computes on doubles.  Here its arithmetic is exact, on rationals, with
  \<^verbatim>\<open>0.5\<close> and \<^verbatim>\<open>0.3\<close> the fractions they denote; \<open>count\<close> is a natural number.
  \<open>toFixed5 x\<close> is \<^verbatim>\<open>parseFloat(x.toFixed(5))\<close>: the multiple of $10^{-5}$ nearest to
  \<open>x\<close>, a tie going to the larger magnitude; from $10^{21}$ on, \<^verbatim>\<open>toFixed\<close> prints the
  number unrounded.
\<close>

definition round5 :: "rat \<Rightarrow> rat" where
  "round5 x = of_int \<lfloor>x * 100000 + 1 / 2\<rfloor> / 100000"

definition toFixed5 :: "rat \<Rightarrow> rat" where
  "toFixed5 x =
     (if 10 ^ 21 \<le> \<bar>x\<bar> then x else if x < 0 then - round5 (- x) else round5 x)"

text \<open>
  \<^verbatim>\<open>new Date(ms).toISOString().split('T')[0]\<close>: the civil date of the day that holds
  the millisecond \<open>ms\<close> of the epoch, in the proleptic Gregorian calendar, as
  \<^verbatim>\<open>YYYY-MM-DD\<close>; a year outside 0 to 9999 is printed with a sign and six digits.
  Beyond 8.64e15 milliseconds either way the date is invalid and \<^verbatim>\<open>toISOString\<close> throws
  a \<^verbatim>\<open>RangeError\<close>.
\<close>

definition civil_from_days :: "int \<Rightarrow> int \<times> int \<times> int" where
  "civil_from_days z =
     (let z1 = z + 719468;
          era = z1 div 146097;
          doe = z1 - era * 146097;
          yoe = (doe - doe div 1460 + doe div 36524 - doe div 146096) div 365;
          doy = doe - (365 * yoe + yoe div 4 - yoe div 100);
          mp = (5 * doy + 2) div 153;
          d = doy - (153 * mp + 2) div 5 + 1;
          m = (if mp < 10 then mp + 3 else mp - 9);
          y = yoe + era * 400 + (if m \<le> 2 then 1 else 0)
      in (y, m, d))"

definition pad :: "nat \<Rightarrow> string \<Rightarrow> string" where
  "pad n s = replicate (n - length s) (CHR ''0'') @ s"

definition toISODay :: "int \<Rightarrow> jserror + string" where
  "toISODay ms =
     (if 8640000000000000 < \<bar>ms\<bar> then Inl (Error ''Invalid time value'')
      else
        (case civil_from_days (ms div 86400000) of (y, m, d) \<Rightarrow>
           Inr ((if 0 \<le> y \<and> y \<le> 9999 then pad 4 (string_of_nat (nat y))
                 else (if y < 0 then ''-'' else ''+'') @ pad 6 (string_of_nat (nat \<bar>y\<bar>)))
                @ ''-'' @ pad 2 (string_of_nat (nat m))
                @ ''-'' @ pad 2 (string_of_nat (nat d)))))"

text \<open>
  The \<^verbatim>\<open>for\<close> loop of lines 137 to 155, from round \<open>i\<close> on.  Round \<open>i\<close> calls
  \<^verbatim>\<open>Math.random()\<close> four times, for \<^verbatim>\<open>change\<close>, \<^verbatim>\<open>close\<close>, \<^verbatim>\<open>high\<close> and
  \<^verbatim>\<open>low\<close> in this order.
\<close>

function generate_loop ::
  "io \<Rightarrow> nat \<Rightarrow> rat \<Rightarrow> nat \<Rightarrow> rat \<Rightarrow> candle list \<Rightarrow> jserror + candle list" where
  "generate_loop w count volatility i price candles =
     (if i < count then
        let change = (random w (4 * i) - 1 / 2) * volatility;
            price1 = price + change;
            opn = price1;
            cls = price1 + (random w (4 * i + 1) - 1 / 2) * volatility * (1 / 2);
            hi = max opn cls + random w (4 * i + 2) * volatility * (3 / 10);
            lo = min opn cls - random w (4 * i + 3) * volatility * (3 / 10)
        in case toISODay (now_demo w i - (int count - int i) * 86400000) of
             Inl e \<Rightarrow> Inl e
           | Inr day \<Rightarrow>
               generate_loop w count volatility (Suc i) cls
                 (candles @ [\<lparr>time = JStr day,
                               open = Fin (toFixed5 opn), high = Fin (toFixed5 hi),
                               low = Fin (toFixed5 lo), close = Fin (toFixed5 cls)\<rparr>])
      else Inr candles)"
  by pat_completeness auto
termination
  by (relation "measure (\<lambda>(w, count, volatility, i, price, candles). count - i)") auto

declare generate_loop.simps [simp del]

definition generateDemoCandles :: "io \<Rightarrow> nat \<Rightarrow> rat \<Rightarrow> rat \<Rightarrow> jserror + candle list" where
  "generateDemoCandles w count basePrice volatility =
     generate_loop w count volatility 0 basePrice []"


section \<open>The routes\<close>

text \<open>
  A response of the server: the status and the JSON body.  \<^verbatim>\<open>req.query.pair\<close> is
  \<^verbatim>\<open>undefined\<close> (here \<open>None\<close>) or a string; a parameter given twice or with brackets,
  which the query parser turns into an array or an object, is outside the model.
\<close>

datatype body =
    Candles "candle list"
  | Failure string string
  | Cleared string nat

record reply =
  http_status :: nat
  body :: body

definition missing_pair :: reply where
  "missing_pair =
     \<lparr>http_status = 400, body = Failure ''MISSING_PAIR'' ''Pair parameter is required''\<rparr>"

text \<open>
  The end of a candle route: \<^verbatim>\<open>res.json({ candles })\<close> when the \<^verbatim>\<open>try\<close> block ran
  through, the \<^verbatim>\<open>catch\<close> block when it threw \<open>e\<close>.  \<open>provider\<close> is the name that the
  message of the 429 body starts with.
\<close>

definition reply_of :: "string \<Rightarrow> jserror + candle list \<Rightarrow> reply" where
  "reply_of provider r =
     (case r of
        Inr candles \<Rightarrow> \<lparr>http_status = 200, body = Candles candles\<rparr>
      | Inl e \<Rightarrow>
          if message e = ''API_LIMIT''
          then \<lparr>http_status = 429,
                body = Failure ''API_LIMIT_REACHED''
                  (provider @ '' API limit reached. Please try again later or enable DEMO_MODE.'')\<rparr>
          else \<lparr>http_status = 500, body = Failure ''SERVER_ERROR'' (message e)\<rparr>)"

text \<open>
  The three candle routes of the Twelve Data server are one text with three pairs of
  constants: the interval, and the volatility of the demo data.  \<open>attempt\<close> is the \<^verbatim>\<open>try\<close>
  block.  \<^verbatim>\<open>fetchCandles\<close> returns an array, which is truthy, so \<^verbatim>\<open>NO_DATA\<close> is never
  thrown.  A route gives its reply, the cache afterwards and its effects.
\<close>

type_synonym route =
  "env \<Rightarrow> io \<Rightarrow> candle list Cache \<Rightarrow> string option \<Rightarrow> reply \<times> candle list Cache \<times> event list"

definition candles_route :: "string \<Rightarrow> rat \<Rightarrow> route" where
  "candles_route interval volatility env w c pair =
     (case pair of
        None \<Rightarrow> (missing_pair, c, [])
      | Some p \<Rightarrow>
          if p = [] then (missing_pair, c, [])
          else
            let attempt =
                  (if DEMO_MODE env
                   then (generateDemoCandles w 100 (23 / 20) volatility, c, [DemoGenerated])
                   else fetchCandles env w c (twelveDataUrl env p interval) p interval)
            in case attempt of (r, c1, tr) \<Rightarrow> (reply_of ''Twelve Data'' r, c1, tr))"

definition api_daily :: route where
  "api_daily = candles_route ''daily'' (1 / 100)"
definition api_h1 :: route where
  "api_h1 = candles_route ''60min'' (1 / 200)"
definition api_m15 :: route where
  "api_m15 = candles_route ''15min'' (1 / 500)"

text \<open>The same three routes of the AlphaVantage server.\<close>

definition candles_route_alpha :: "string \<Rightarrow> rat \<Rightarrow> route" where
  "candles_route_alpha interval volatility env w c pair =
     (case pair of
        None \<Rightarrow> (missing_pair, c, [])
      | Some p \<Rightarrow>
          if p = [] then (missing_pair, c, [])
          else
            let attempt =
                  (if DEMO_MODE env
                   then (generateDemoCandles w 100 (23 / 20) volatility, c, [DemoGenerated])
                   else fetchCandles_alpha env w c (alphaUrl env p interval))
            in case attempt of (r, c1, tr) \<Rightarrow> (reply_of ''AlphaVantage'' r, c1, tr))"

definition api_daily_alpha :: route where
  "api_daily_alpha = candles_route_alpha ''daily'' (1 / 100)"
definition api_h1_alpha :: route where
  "api_h1_alpha = candles_route_alpha ''60min'' (1 / 200)"
definition api_m15_alpha :: route where
  "api_m15_alpha = candles_route_alpha ''15min'' (1 / 500)"

text \<open>\<^verbatim>\<open>POST /api/cache/clear\<close>, the same in both servers.\<close>

definition api_cache_clear :: "candle list Cache \<Rightarrow> reply \<times> candle list Cache" where
  "api_cache_clear c =
     (let c1 = Cache_clear c
      in (\<lparr>http_status = 200, body = Cleared ''Cache cleared successfully'' (Cache_size c1)\<rparr>,
          c1))"

section \<open>Sample surroundings\<close>

text \<open>
  A configuration and an outside world for the examples.  The two library functions are
  stand-ins that agree with the real ones on the values of the examples: \<^verbatim>\<open>parseFloat\<close> is
  right on the four prices of the sample bars; no example prints a number.  The network
  gives the same answer to every request, the clock stands at the start of 2024, every
  random number is one half.
\<close>

definition sample_prices :: "(string \<times> number) list" where
  "sample_prices =
     [(''1.10000'', Fin (11 / 10)), (''1.20000'', Fin (6 / 5)), (''1.00000'', Fin 1),
      (''1.15000'', Fin (23 / 20))]"

definition sample_env :: "bool \<Rightarrow> env" where
  "sample_env demo =
     \<lparr>API_KEY = Some ''KEY'', DEMO_MODE = demo,
      parseFloat_text = (\<lambda>s. case map_of sample_prices s of None \<Rightarrow> NaN | Some n \<Rightarrow> n),
      numberToString = (\<lambda>n. [])\<rparr>"

definition sample_io :: "fetched \<Rightarrow> io" where
  "sample_io answer =
     \<lparr>net = (\<lambda>url. answer), now_get = 1704067200000, now_set = 1704067200500,
      now_demo = (\<lambda>i. 1704067200000), random = (\<lambda>n. 1 / 2)\<rparr>"

definition ok_json :: "jsval \<Rightarrow> fetched" where
  "ok_json v = Resolved \<lparr>status = 200, statusText = ''OK'', json = Inr v\<rparr>"

text \<open>
  Sample payloads: a Twelve Data body and an AlphaVantage body with two daily bars each, in
  either order, the candle that both clients make of a bar, and the body with which
  Twelve Data declares that the rate limit is reached.
\<close>

definition bar :: "string \<Rightarrow> jsval" where
  "bar day = JObj [(''datetime'', JStr day), (''open'', JStr ''1.10000''),
                   (''high'', JStr ''1.20000''), (''low'', JStr ''1.00000''),
                   (''close'', JStr ''1.15000'')]"

definition bar_alpha :: "string \<Rightarrow> string \<times> jsval" where
  "bar_alpha day = (day, JObj [(''1. open'', JStr ''1.10000''),
                   (''2. high'', JStr ''1.20000''), (''3. low'', JStr ''1.00000''),
                   (''4. close'', JStr ''1.15000'')])"

definition sample_candle :: "string \<Rightarrow> candle" where
  "sample_candle day = \<lparr>time = JStr day, open = Fin (11 / 10), high = Fin (6 / 5), low = Fin 1,
                        close = Fin (23 / 20)\<rparr>"

definition oldest_first :: jsval where
  "oldest_first = JObj [(''meta'', JObj []), (''values'', JArr [bar ''2024-01-01'', bar ''2024-01-02'']),
                        (''status'', JStr ''ok'')]"

definition newest_first :: jsval where
  "newest_first = JObj [(''meta'', JObj []), (''values'', JArr [bar ''2024-01-02'', bar ''2024-01-01'']),
                        (''status'', JStr ''ok'')]"

definition oldest_first_alpha :: jsval where
  "oldest_first_alpha = JObj [(''Meta Data'', JObj []),
      (''Time Series FX (Daily)'', JObj [bar_alpha ''2024-01-01'', bar_alpha ''2024-01-02''])]"

definition newest_first_alpha :: jsval where
  "newest_first_alpha = JObj [(''Meta Data'', JObj []),
      (''Time Series FX (Daily)'', JObj [bar_alpha ''2024-01-02'', bar_alpha ''2024-01-01''])]"

definition rate_limited :: jsval where
  "rate_limited =
     JObj [(''code'', JNum (Fin 429)),
           (''message'', JStr ''You have run out of API credits for the current minute.''),
           (''status'', JStr ''error'')]"

section \<open>What the properties speak of\<close>

text \<open>
  A sequence of times is ascending when every time is a string and the strings ascend in
  the order of JavaScript's comparison of strings, which on ISO dates is the order of time.
\<close>

fun time_text :: "jsval \<Rightarrow> string option" where
  "time_text (JStr s) = Some s"
| "time_text v = None"

fun all_texts :: "jsval list \<Rightarrow> string list option" where
  "all_texts [] = Some []"
| "all_texts (v # vs) =
     (case time_text v of
        None \<Rightarrow> None
      | Some s \<Rightarrow> (case all_texts vs of None \<Rightarrow> None | Some ss \<Rightarrow> Some (s # ss)))"

definition ascending :: "jsval list \<Rightarrow> bool" where
  "ascending ts = (case all_texts ts of None \<Rightarrow> False | Some ss \<Rightarrow> sorted ss)"

definition ascending_by_time :: "candle list \<Rightarrow> bool" where
  "ascending_by_time cs = ascending (map time cs)"


text \<open>
  The times of the bars of a parsed body in the order in which the provider sent them:
  the \<^verbatim>\<open>datetime\<close> of each element of \<^verbatim>\<open>values\<close> for Twelve Data, the keys of the
  time series for AlphaVantage.  \<open>payload\<close> is the parsed body of an answer.
\<close>

definition payload :: "fetched \<Rightarrow> jsval" where
  "payload answer =
     (case answer of
        Rejected e \<Rightarrow> JUndefined
      | Resolved res \<Rightarrow> (case json res of Inl e \<Rightarrow> JUndefined | Inr v \<Rightarrow> v))"

definition the_prop :: "jsval \<Rightarrow> string \<Rightarrow> jsval" where
  "the_prop v name = (case read_prop v name of Inl e \<Rightarrow> JUndefined | Inr x \<Rightarrow> x)"

definition upstream_times :: "jsval \<Rightarrow> jsval list" where
  "upstream_times v =
     (case the_prop v ''values'' of
        JArr items \<Rightarrow> map (\<lambda>item. the_prop item ''datetime'') items
      | _ \<Rightarrow> [])"

definition upstream_times_alpha :: "jsval \<Rightarrow> jsval list" where
  "upstream_times_alpha v =
     (case Object_keys v of
        Inl e \<Rightarrow> []
      | Inr keys \<Rightarrow>
          (case find (\<lambda>k. str_includes k ''Time Series'') keys of
             None \<Rightarrow> []
           | Some key \<Rightarrow>
               (case Object_entries (the_prop v key) of
                  Inl e \<Rightarrow> []
                | Inr entries \<Rightarrow> map (\<lambda>entry. JStr (fst entry)) entries)))"

section \<open>Properties of the cache\<close>

lemmas eval_defs = sample_env_def sample_io_def ok_json_def new_Cache_def
  fetchCandles_def fetchCandles_alpha_def Cache_get_def Cache_set_def fetchCandles_try_def
  fetchCandles_alpha_try_def ok_def andThen_def reply_of_def fetchCandles_catch_def cacheKey_def
  candles_route_def candles_route_alpha_def twelveDataUrl_def alphaUrl_def key_text_def intervalMap_def
  Let_def

lemmas series_defs = bar_def bar_alpha_def sample_candle_def oldest_first_def newest_first_def
  parseFloat_def sample_prices_def
  oldest_first_alpha_def newest_first_alpha_def ascending_def ascending_by_time_def payload_def
  the_prop_def upstream_times_def upstream_times_alpha_def Object_keys_def toCandle_def
  toCandle_alpha_def

lemma Cache_get_absent:
  "fmlookup (cache c) key = None \<Longrightarrow> Cache_get c key now = (None, c)"
  by (simp add: Cache_get_def)

lemma Cache_get_fresh:
  "fmlookup (cache c) key = Some it \<Longrightarrow> now - timestamp it \<le> ttl c \<Longrightarrow>
   Cache_get c key now = (Some (data it), c)"
  by (simp add: Cache_get_def)

lemma Cache_get_stale:
  "fmlookup (cache c) key = Some it \<Longrightarrow> now - timestamp it > ttl c \<Longrightarrow>
   Cache_get c key now = (None, c\<lparr>cache := fmdrop key (cache c)\<rparr>)"
  by (simp add: Cache_get_def)

lemma Cache_size_drop:
  "fmlookup (cache c) key = Some it \<Longrightarrow>
   Suc (Cache_size (c\<lparr>cache := fmdrop key (cache c)\<rparr>)) = Cache_size c"
proof -
  assume "fmlookup (cache c) key = Some it"
  then have "key |\<in>| fmdom (cache c)"
    by (simp add: fmdomI)
  then have "Suc (fcard (fmdom (cache c) |-| {|key|})) = fcard (fmdom (cache c))"
    by (rule fcard_Suc_fminus1)
  then show ?thesis
    by (simp add: Cache_size_def del: fcard_fminus_finsert)
qed

text \<open>
  C3.  Right after \<^verbatim>\<open>set(k, v)\<close> at clock reading \<open>stored\<close>, a \<^verbatim>\<open>get(k)\<close> at reading \<open>t\<close>
  returns \<open>v\<close> and leaves the cache as it is when \<open>t - stored \<le> ttl\<close>; when
  \<open>t - stored > ttl\<close> it returns a miss, the key has no item afterwards, and \<^verbatim>\<open>size()\<close> is
  exactly one less than before the read.
\<close>

theorem Cache_set_get:
  "(t - stored \<le> ttl c \<longrightarrow>
      Cache_get (Cache_set c k v stored) k t = (Some v, Cache_set c k v stored)) \<and>
   (t - stored > ttl c \<longrightarrow>
      fst (Cache_get (Cache_set c k v stored) k t) = None \<and>
      fmlookup (cache (snd (Cache_get (Cache_set c k v stored) k t))) k = None \<and>
      Suc (Cache_size (snd (Cache_get (Cache_set c k v stored) k t)))
        = Cache_size (Cache_set c k v stored))"
proof -
  let ?c = "Cache_set c k v stored"
  have look: "fmlookup (cache ?c) k = Some \<lparr>data = v, timestamp = stored\<rparr>"
    by (simp add: Cache_set_def)
  have ttl: "ttl ?c = ttl c"
    by (simp add: Cache_set_def)
  have fresh: "t - stored \<le> ttl c \<Longrightarrow> Cache_get ?c k t = (Some v, ?c)"
    using Cache_get_fresh [OF look, of t] by (simp add: ttl)
  have stale: "t - stored > ttl c \<Longrightarrow>
      Cache_get ?c k t = (None, ?c\<lparr>cache := fmdrop k (cache ?c)\<rparr>)"
    using Cache_get_stale [OF look, of t] by (simp add: ttl)
  show ?thesis
    using fresh stale Cache_size_drop [OF look] by simp
qed

theorem Cache_set_get_witness:
  "(2000 - 1000 \<le> ttl (new_Cache 300000 :: nat Cache) \<and>
      Cache_get (Cache_set (new_Cache 300000) ''EURUSD-daily'' (7::nat) 1000) ''EURUSD-daily'' 2000
        = (Some 7, Cache_set (new_Cache 300000) ''EURUSD-daily'' 7 1000)) \<and>
   (301001 - 1000 > ttl (new_Cache 300000 :: nat Cache) \<and>
      fst (Cache_get (Cache_set (new_Cache 300000) ''EURUSD-daily'' (7::nat) 1000)
             ''EURUSD-daily'' 301001) = None \<and>
      Cache_size (snd (Cache_get (Cache_set (new_Cache 300000) ''EURUSD-daily'' (7::nat) 1000)
             ''EURUSD-daily'' 301001)) = 0 \<and>
      Cache_size (Cache_set (new_Cache 300000 :: nat Cache) ''EURUSD-daily'' 7 1000) = 1)"
  using Cache_set_get [of 2000 1000 "new_Cache 300000 :: nat Cache" "''EURUSD-daily''" 7]
        Cache_set_get [of 301001 1000 "new_Cache 300000 :: nat Cache" "''EURUSD-daily''" 7]
  by (simp add: new_Cache_def Cache_set_def Cache_size_def fcard_finsert_if)

text \<open>
  C7.  \<^verbatim>\<open>get\<close> changes the cache only by lazy expiry: when the key has no item the cache
  after the call is the cache before it, and when the call returns data (a hit) the cache
  is unchanged as well, so the item keeps the timestamp it was stored with.
\<close>

theorem Cache_get_frame:
  "(fmlookup (cache c) k = None \<longrightarrow> Cache_get c k t = (None, c)) \<and>
   (fst (Cache_get c k t) \<noteq> None \<longrightarrow> snd (Cache_get c k t) = c)"
  by (simp add: Cache_get_def split: option.splits)

theorem Cache_get_frame_witness:
  "fmlookup (cache (new_Cache 300000 :: nat Cache)) ''GBPUSD-daily'' = None \<and>
   Cache_get (new_Cache 300000 :: nat Cache) ''GBPUSD-daily'' 5 = (None, new_Cache 300000) \<and>
   fst (Cache_get (Cache_set (new_Cache 300000) ''EURUSD-daily'' (7::nat) 1000)
          ''EURUSD-daily'' 2000) \<noteq> None \<and>
   fmlookup (cache (snd (Cache_get (Cache_set (new_Cache 300000) ''EURUSD-daily'' (7::nat) 1000)
          ''EURUSD-daily'' 2000))) ''EURUSD-daily'' = Some \<lparr>data = 7, timestamp = 1000\<rparr>"
  using Cache_get_frame [of "new_Cache 300000 :: nat Cache" "''GBPUSD-daily''" 5]
        Cache_get_frame [of "Cache_set (new_Cache 300000) ''EURUSD-daily'' (7::nat) 1000"
                            "''EURUSD-daily''" 2000]
  by (simp add: new_Cache_def Cache_set_def Cache_get_def)

text \<open>
  C8.  After \<^verbatim>\<open>clear()\<close>, \<^verbatim>\<open>size()\<close> is 0 and a \<^verbatim>\<open>get\<close> on any key, at any clock
  reading, is a miss; this covers every key stored before the clear.  The route
  \<^verbatim>\<open>POST /api/cache/clear\<close> reports the size 0 and leaves the cleared cache.
\<close>

theorem Cache_clear_empty:
  "Cache_size (Cache_clear c) = 0 \<and>
   fst (Cache_get (Cache_clear c) k t) = None \<and>
   api_cache_clear c' =
     (\<lparr>http_status = 200, body = Cleared ''Cache cleared successfully'' 0\<rparr>, Cache_clear c')"
  by (simp add: Cache_size_def Cache_clear_def Cache_get_def api_cache_clear_def)

section \<open>Properties of the upstream clients\<close>

lemma Cache_get_miss_after:
  "fst (Cache_get c k t) = None \<Longrightarrow> fmlookup (cache (snd (Cache_get c k t))) k = None"
  by (auto simp: Cache_get_def split: option.splits if_splits)

lemma Cache_get_others:
  "fmlookup (cache (snd (Cache_get c k t))) k' = fmlookup (cache c) k' \<or>
   fmlookup (cache (snd (Cache_get c k t))) k' = None"
  by (simp add: Cache_get_def split: option.splits)



lemma fetchCandles_miss:
  "fst (Cache_get c (cacheKey pair interval) (now_get w)) = None \<Longrightarrow>
   fetchCandles env w c url pair interval =
     (case fetchCandles_try env (net w url) of
        Inl e \<Rightarrow> (Inl (fetchCandles_catch e), snd (Cache_get c (cacheKey pair interval) (now_get w)),
                  [CacheGet (cacheKey pair interval), NetworkCall url])
      | Inr result \<Rightarrow>
          (Inr result,
           Cache_set (snd (Cache_get c (cacheKey pair interval) (now_get w)))
             (cacheKey pair interval) result (now_set w),
           [CacheGet (cacheKey pair interval), NetworkCall url, CacheSet (cacheKey pair interval)]))"
  by (cases "Cache_get c (cacheKey pair interval) (now_get w)")
     (simp add: fetchCandles_def Let_def split: sum.splits)


lemma fetchCandles_alpha_miss:
  "fst (Cache_get c url (now_get w)) = None \<Longrightarrow>
   fetchCandles_alpha env w c url =
     (case fetchCandles_alpha_try env (net w url) of
        Inl e \<Rightarrow> (Inl (fetchCandles_catch e), snd (Cache_get c url (now_get w)),
                  [CacheGet url, NetworkCall url])
      | Inr result \<Rightarrow>
          (Inr result, Cache_set (snd (Cache_get c url (now_get w))) url result (now_set w),
           [CacheGet url, NetworkCall url, CacheSet url]))"
  by (cases "Cache_get c url (now_get w)") (simp add: fetchCandles_alpha_def Let_def split: sum.splits)

lemma fetchCandles_error_miss:
  "fst (fetchCandles env w c url pair interval) = Inl e \<Longrightarrow>
   fst (Cache_get c (cacheKey pair interval) (now_get w)) = None"
  by (cases "Cache_get c (cacheKey pair interval) (now_get w)")
     (auto simp: fetchCandles_def Let_def split: option.splits)

lemma fetchCandles_alpha_error_miss:
  "fst (fetchCandles_alpha env w c url) = Inl e \<Longrightarrow> fst (Cache_get c url (now_get w)) = None"
  by (cases "Cache_get c url (now_get w)")
     (auto simp: fetchCandles_alpha_def Let_def split: option.splits)

lemma fetchCandles_error_after:
  assumes "fst (fetchCandles env w c url pair interval) = Inl e"
  shows "snd (fetchCandles env w c url pair interval) =
           (snd (Cache_get c (cacheKey pair interval) (now_get w)),
            [CacheGet (cacheKey pair interval), NetworkCall url])"
  using assms fetchCandles_miss [OF fetchCandles_error_miss [OF assms]]
  by (simp split: sum.splits)

lemma fetchCandles_alpha_error_after:
  assumes "fst (fetchCandles_alpha env w c url) = Inl e"
  shows "snd (fetchCandles_alpha env w c url) =
           (snd (Cache_get c url (now_get w)), [CacheGet url, NetworkCall url])"
  using assms fetchCandles_alpha_miss [OF fetchCandles_alpha_error_miss [OF assms]]
  by (simp split: sum.splits)

text \<open>
  C9.  When \<^verbatim>\<open>fetchCandles\<close> throws, in either server, its effects were the cache read and
  the network call and no \<^verbatim>\<open>cache.set\<close>; afterwards the cache has no item under the key
  of the call, and every other key has the item it had before or none: nothing was inserted
  or overwritten.
\<close>

theorem fetchCandles_error_leaves_cache:
  "(fst (fetchCandles env w c url pair interval) = Inl e \<longrightarrow>
      snd (snd (fetchCandles env w c url pair interval))
        = [CacheGet (cacheKey pair interval), NetworkCall url] \<and>
      fmlookup (cache (fst (snd (fetchCandles env w c url pair interval))))
        (cacheKey pair interval) = None \<and>
      (fmlookup (cache (fst (snd (fetchCandles env w c url pair interval)))) k
         = fmlookup (cache c) k \<or>
       fmlookup (cache (fst (snd (fetchCandles env w c url pair interval)))) k = None)) \<and>
   (fst (fetchCandles_alpha env w c url) = Inl e \<longrightarrow>
      snd (snd (fetchCandles_alpha env w c url)) = [CacheGet url, NetworkCall url] \<and>
      fmlookup (cache (fst (snd (fetchCandles_alpha env w c url)))) url = None \<and>
      (fmlookup (cache (fst (snd (fetchCandles_alpha env w c url)))) k = fmlookup (cache c) k \<or>
       fmlookup (cache (fst (snd (fetchCandles_alpha env w c url)))) k = None))"
proof (intro conjI impI)
  assume a: "fst (fetchCandles env w c url pair interval) = Inl e"
  note after = fetchCandles_error_after [OF a]
  show "snd (snd (fetchCandles env w c url pair interval))
        = [CacheGet (cacheKey pair interval), NetworkCall url]"
    by (simp add: after)
  show "fmlookup (cache (fst (snd (fetchCandles env w c url pair interval))))
        (cacheKey pair interval) = None"
    by (simp add: after Cache_get_miss_after [OF fetchCandles_error_miss [OF a]])
  show "fmlookup (cache (fst (snd (fetchCandles env w c url pair interval)))) k
         = fmlookup (cache c) k \<or>
       fmlookup (cache (fst (snd (fetchCandles env w c url pair interval)))) k = None"
    using Cache_get_others [of c "cacheKey pair interval" "now_get w" k] by (simp add: after)
next
  assume a: "fst (fetchCandles_alpha env w c url) = Inl e"
  note after = fetchCandles_alpha_error_after [OF a]
  show "snd (snd (fetchCandles_alpha env w c url)) = [CacheGet url, NetworkCall url]"
    by (simp add: after)
  show "fmlookup (cache (fst (snd (fetchCandles_alpha env w c url)))) url = None"
    by (simp add: after Cache_get_miss_after [OF fetchCandles_alpha_error_miss [OF a]])
  show "fmlookup (cache (fst (snd (fetchCandles_alpha env w c url)))) k = fmlookup (cache c) k \<or>
       fmlookup (cache (fst (snd (fetchCandles_alpha env w c url)))) k = None"
    using Cache_get_others [of c url "now_get w" k] by (simp add: after)
qed

theorem fetchCandles_error_leaves_cache_witness:
  "fst (fetchCandles (sample_env False) (sample_io (Rejected (Error ''network timeout'')))
         (Cache_set (new_Cache 300000) ''EURUSD-daily'' [] 0) ''u'' ''EURUSD'' ''daily'')
     = Inl (Error ''network timeout'') \<and>
   fmlookup (cache (fst (snd (fetchCandles (sample_env False)
         (sample_io (Rejected (Error ''network timeout'')))
         (Cache_set (new_Cache 300000) ''EURUSD-daily'' [] 0) ''u'' ''EURUSD'' ''daily''))))
       (cacheKey ''EURUSD'' ''daily'') = None \<and>
   fst (fetchCandles_alpha (sample_env False) (sample_io (ok_json (JObj [(''Note'', JStr ''limit'')])))
         (new_Cache 300000) ''u'')
     = Inl (Error ''API_LIMIT'') \<and>
   fmlookup (cache (fst (snd (fetchCandles_alpha (sample_env False)
         (sample_io (ok_json (JObj [(''Note'', JStr ''limit'')]))) (new_Cache 300000) ''u''))))
       ''u'' = None"
  using fetchCandles_error_leaves_cache
          [of "sample_env False" "sample_io (Rejected (Error ''network timeout''))"
              "Cache_set (new_Cache 300000) ''EURUSD-daily'' [] 0" "''u''" "''EURUSD''" "''daily''"
              "Error ''network timeout''" "''u''"]
        fetchCandles_error_leaves_cache
          [of "sample_env False" "sample_io (ok_json (JObj [(''Note'', JStr ''limit'')]))"
              "new_Cache 300000" "''u''" "''EURUSD''" "''daily''" "Error ''API_LIMIT''" "''u''"]
  by (simp add: eval_defs)




text \<open>
  C6.  Each of the three candle routes, in both servers, answers a request whose \<^verbatim>\<open>pair\<close>
  is absent or the empty string with status 400 and error code \<^verbatim>\<open>MISSING_PAIR\<close>, with
  the cache untouched and no effect performed: no demo generation, no cache access, no
  network call.
\<close>

theorem missing_pair_400:
  "pair = None \<or> pair = Some [] \<Longrightarrow>
   http_status missing_pair = 400 \<and>
   body missing_pair = Failure ''MISSING_PAIR'' ''Pair parameter is required'' \<and>
   api_daily env w c pair = (missing_pair, c, []) \<and>
   api_h1 env w c pair = (missing_pair, c, []) \<and>
   api_m15 env w c pair = (missing_pair, c, []) \<and>
   api_daily_alpha env w c pair = (missing_pair, c, []) \<and>
   api_h1_alpha env w c pair = (missing_pair, c, []) \<and>
   api_m15_alpha env w c pair = (missing_pair, c, [])"
  by (auto simp: missing_pair_def api_daily_def api_h1_def api_m15_def api_daily_alpha_def
        api_h1_alpha_def api_m15_alpha_def candles_route_def candles_route_alpha_def)

theorem missing_pair_400_witness:
  "api_daily (sample_env False) (sample_io (ok_json newest_first)) (new_Cache 300000) None
     = (\<lparr>http_status = 400, body = Failure ''MISSING_PAIR'' ''Pair parameter is required''\<rparr>,
        new_Cache 300000, []) \<and>
   api_m15_alpha (sample_env True) (sample_io (ok_json newest_first)) (new_Cache 300000) (Some [])
     = (\<lparr>http_status = 400, body = Failure ''MISSING_PAIR'' ''Pair parameter is required''\<rparr>,
        new_Cache 300000, [])"
  using missing_pair_400 [of None "sample_env False" "sample_io (ok_json newest_first)"
                             "new_Cache 300000"]
        missing_pair_400 [of "Some []" "sample_env True" "sample_io (ok_json newest_first)"
                             "new_Cache 300000"]
  by (simp add: missing_pair_def)

lemma toCandle_time: "toCandle env item = Inr cd \<Longrightarrow> time cd = the_prop item ''datetime''"
  by (auto simp: toCandle_def andThen_def the_prop_def split: sum.splits)

lemma toCandle_alpha_time: "toCandle_alpha env entry = Inr cd \<Longrightarrow> time cd = JStr (fst entry)"
  by (cases entry) (auto simp: toCandle_alpha_def andThen_def split: sum.splits)

lemma mapThrow_map:
  "mapThrow f xs = Inr ys \<Longrightarrow> (\<And>x y. f x = Inr y \<Longrightarrow> g y = h x) \<Longrightarrow> map g ys = map h xs"
  by (induction xs arbitrary: ys) (auto split: sum.splits)

lemma fetchCandles_try_times:
  assumes "fetchCandles_try env answer = Inr r"
  shows "map time r = rev (upstream_times (payload answer))"
proof -
  from assms obtain res d items cs where
    "answer = Resolved res" "json res = Inr d" "read_prop d ''values'' = Inr (JArr items)"
    "mapThrow (toCandle env) items = Inr cs" "r = rev cs"
    by (auto simp: fetchCandles_try_def andThen_def split: fetched.splits if_splits sum.splits jsval.splits)
  moreover from this have "map time cs = map (\<lambda>item. the_prop item ''datetime'') items"
    using mapThrow_map [of "toCandle env" items cs time "\<lambda>item. the_prop item ''datetime''"]
    by (simp add: toCandle_time)
  ultimately show ?thesis
    by (simp add: upstream_times_def payload_def the_prop_def rev_map [symmetric])
qed

lemma fetchCandles_alpha_try_times:
  assumes "fetchCandles_alpha_try env answer = Inr r"
  shows "map time r = rev (upstream_times_alpha (payload answer))"
proof -
  from assms obtain res d keys key series entries cs where
    "answer = Resolved res" "json res = Inr d" "Object_keys d = Inr keys"
    "find (\<lambda>k. str_includes k ''Time Series'') keys = Some key"
    "read_prop d key = Inr series" "Object_entries series = Inr entries"
    "mapThrow (toCandle_alpha env) entries = Inr cs" "r = rev cs"
    by (auto simp: fetchCandles_alpha_try_def andThen_def
             split: fetched.splits if_splits sum.splits option.splits)
  moreover from this have "map time cs = map (\<lambda>entry. JStr (fst entry)) entries"
    using mapThrow_map [of "toCandle_alpha env" entries cs time "\<lambda>entry. JStr (fst entry)"]
    by (simp add: toCandle_alpha_time)
  ultimately show ?thesis
    by (simp add: upstream_times_alpha_def payload_def the_prop_def rev_map [symmetric])
qed

text \<open>
  C2, amended.  A call of \<^verbatim>\<open>fetchCandles\<close> that finds nothing usable in the cache and
  succeeds returns the bars of the provider in reverse order, in both servers; so what it
  returns ascends by time exactly when the provider sent its bars newest first.
\<close>

theorem fetchCandles_reverses_upstream:
  "(fst (Cache_get c (cacheKey pair interval) (now_get w)) = None \<and>
    fst (fetchCandles env w c url pair interval) = Inr r \<longrightarrow>
      map time r = rev (upstream_times (payload (net w url))) \<and>
      (ascending_by_time r \<longleftrightarrow> ascending (rev (upstream_times (payload (net w url)))))) \<and>
   (fst (Cache_get c url (now_get w)) = None \<and>
    fst (fetchCandles_alpha env w c url) = Inr r \<longrightarrow>
      map time r = rev (upstream_times_alpha (payload (net w url))) \<and>
      (ascending_by_time r \<longleftrightarrow> ascending (rev (upstream_times_alpha (payload (net w url))))))"
proof (intro conjI impI; elim conjE)
  assume miss: "fst (Cache_get c (cacheKey pair interval) (now_get w)) = None"
    and "fst (fetchCandles env w c url pair interval) = Inr r"
  then have "fetchCandles_try env (net w url) = Inr r"
    by (simp add: fetchCandles_miss [OF miss] split: sum.splits)
  then show times: "map time r = rev (upstream_times (payload (net w url)))"
    by (rule fetchCandles_try_times)
  show "ascending_by_time r \<longleftrightarrow> ascending (rev (upstream_times (payload (net w url))))"
    by (simp add: ascending_by_time_def times)
next
  assume miss: "fst (Cache_get c url (now_get w)) = None"
    and "fst (fetchCandles_alpha env w c url) = Inr r"
  then have "fetchCandles_alpha_try env (net w url) = Inr r"
    by (simp add: fetchCandles_alpha_miss [OF miss] split: sum.splits)
  then show times: "map time r = rev (upstream_times_alpha (payload (net w url)))"
    by (rule fetchCandles_alpha_try_times)
  show "ascending_by_time r \<longleftrightarrow> ascending (rev (upstream_times_alpha (payload (net w url))))"
    by (simp add: ascending_by_time_def times)
qed

text \<open>
  C2 as stated fails: when the provider sends two bars oldest first, the successful call
  returns them newest first, which is not ascending by time, in both servers.
\<close>

theorem fetchCandles_unsorted:
  "fst (fetchCandles (sample_env False) (sample_io (ok_json oldest_first)) (new_Cache 300000)
          (twelveDataUrl (sample_env False) ''EURUSD'' ''daily'') ''EURUSD'' ''daily'')
     = Inr [sample_candle ''2024-01-02'', sample_candle ''2024-01-01''] \<and>
   fst (fetchCandles_alpha (sample_env False) (sample_io (ok_json oldest_first_alpha))
          (new_Cache 300000) (alphaUrl (sample_env False) ''EURUSD'' ''daily''))
     = Inr [sample_candle ''2024-01-02'', sample_candle ''2024-01-01''] \<and>
   \<not> ascending_by_time [sample_candle ''2024-01-02'', sample_candle ''2024-01-01'']"
  by (simp add: eval_defs series_defs)

theorem fetchCandles_reverses_upstream_witness:
  "fst (Cache_get (new_Cache 300000 :: candle list Cache) (cacheKey ''EURUSD'' ''daily'')
          (now_get (sample_io (ok_json newest_first)))) = None \<and>
   fst (fetchCandles (sample_env False) (sample_io (ok_json newest_first)) (new_Cache 300000)
          ''u'' ''EURUSD'' ''daily'')
     = Inr [sample_candle ''2024-01-01'', sample_candle ''2024-01-02''] \<and>
   upstream_times (payload (net (sample_io (ok_json newest_first)) ''u''))
     = [JStr ''2024-01-02'', JStr ''2024-01-01''] \<and>
   ascending_by_time [sample_candle ''2024-01-01'', sample_candle ''2024-01-02''] \<and>
   fst (Cache_get (new_Cache 300000 :: candle list Cache) ''u''
          (now_get (sample_io (ok_json newest_first_alpha)))) = None \<and>
   fst (fetchCandles_alpha (sample_env False) (sample_io (ok_json newest_first_alpha))
          (new_Cache 300000) ''u'')
     = Inr [sample_candle ''2024-01-01'', sample_candle ''2024-01-02''] \<and>
   upstream_times_alpha (payload (net (sample_io (ok_json newest_first_alpha)) ''u''))
     = [JStr ''2024-01-02'', JStr ''2024-01-01'']"
  using fetchCandles_reverses_upstream
          [of "new_Cache 300000" "''EURUSD''" "''daily''" "sample_io (ok_json newest_first)"
              "sample_env False" "''u''" "[sample_candle ''2024-01-01'', sample_candle ''2024-01-02'']"]
        fetchCandles_reverses_upstream
          [of "new_Cache 300000" "''EURUSD''" "''daily''" "sample_io (ok_json newest_first_alpha)"
              "sample_env False" "''u''" "[sample_candle ''2024-01-01'', sample_candle ''2024-01-02'']"]
  by (simp add: eval_defs series_defs)

section \<open>Properties of the routes\<close>

lemma reply_of_limit:
  "reply_of provider (Inl (Error ''API_LIMIT'')) =
     \<lparr>http_status = 429,
      body = Failure ''API_LIMIT_REACHED''
               (provider @ '' API limit reached. Please try again later or enable DEMO_MODE.'')\<rparr>"
  by (simp add: reply_of_def)

lemma candles_route_live:
  "\<not> DEMO_MODE env \<Longrightarrow> p \<noteq> [] \<Longrightarrow>
   fst (candles_route interval volatility env w c (Some p)) =
     reply_of ''Twelve Data'' (fst (fetchCandles env w c (twelveDataUrl env p interval) p interval))"
  by (simp add: candles_route_def split: prod.splits)

lemma candles_route_alpha_live:
  "\<not> DEMO_MODE env \<Longrightarrow> p \<noteq> [] \<Longrightarrow>
   fst (candles_route_alpha interval volatility env w c (Some p)) =
     reply_of ''AlphaVantage'' (fst (fetchCandles_alpha env w c (alphaUrl env p interval)))"
  by (simp add: candles_route_alpha_def split: prod.splits)

text \<open>
  What the two servers make of the rate-limit signal of their provider, for a request in
  live mode that finds nothing usable in the cache and gets a 2xx answer with a JSON body.
  AlphaVantage: a truthy \<^verbatim>\<open>Note\<close> gives 429, whatever else the body holds.  Twelve Data:
  \<^verbatim>\<open>code\<close> 429 gives 429 only when \<^verbatim>\<open>status\<close> is not \<^verbatim>\<open>'error'\<close>; a body with
  \<^verbatim>\<open>status\<close> \<^verbatim>\<open>'error'\<close> gives 500 before \<^verbatim>\<open>code\<close> is looked at.
\<close>

lemma alpha_note_is_limit:
  assumes "\<not> DEMO_MODE env" and "p \<noteq> []"
    and "fst (Cache_get c (alphaUrl env p interval) (now_get w)) = None"
    and "net w (alphaUrl env p interval) = Resolved res" and "ok res" and "json res = Inr v"
    and "read_prop v ''Note'' = Inr note" and "truthy note"
  shows "fst (candles_route_alpha interval volatility env w c (Some p)) =
           \<lparr>http_status = 429,
            body = Failure ''API_LIMIT_REACHED''
              ''AlphaVantage API limit reached. Please try again later or enable DEMO_MODE.''\<rparr>"
proof -
  have "fetchCandles_alpha_try env (net w (alphaUrl env p interval)) = Inl (Error ''API_LIMIT_REACHED'')"
    using assms by (simp add: fetchCandles_alpha_try_def andThen_def)
  then have "fst (fetchCandles_alpha env w c (alphaUrl env p interval)) = Inl (Error ''API_LIMIT'')"
    by (simp add: fetchCandles_alpha_miss [OF assms(3)] fetchCandles_catch_def)
  then show ?thesis
    using assms(1,2) by (simp add: candles_route_alpha_live reply_of_limit)
qed

lemma twelve_data_code_is_limit_unless_error:
  assumes "\<not> DEMO_MODE env" and "p \<noteq> []"
    and "fst (Cache_get c (cacheKey p interval) (now_get w)) = None"
    and "net w (twelveDataUrl env p interval) = Resolved res" and "ok res" and "json res = Inr v"
    and "read_prop v ''status'' = Inr st" and "st \<noteq> JStr ''error''"
    and "read_prop v ''code'' = Inr (JNum (Fin 429))"
  shows "fst (candles_route interval volatility env w c (Some p)) =
           \<lparr>http_status = 429,
            body = Failure ''API_LIMIT_REACHED''
              ''Twelve Data API limit reached. Please try again later or enable DEMO_MODE.''\<rparr>"
proof -
  have "fetchCandles_try env (net w (twelveDataUrl env p interval)) = Inl (Error ''API_LIMIT_REACHED'')"
    using assms by (simp add: fetchCandles_try_def andThen_def)
  then have "fst (fetchCandles env w c (twelveDataUrl env p interval) p interval)
               = Inl (Error ''API_LIMIT'')"
    by (simp add: fetchCandles_miss [OF assms(3)] fetchCandles_catch_def)
  then show ?thesis
    using assms(1,2) by (simp add: candles_route_live reply_of_limit)
qed

lemma ToString_error:
  "ToString env v = Inl e \<Longrightarrow> e = Error ''Cannot convert object to primitive value''"
  "join_elements env xs = Inl e \<Longrightarrow> e = Error ''Cannot convert object to primitive value''"
  by (induction env v and env xs rule: ToString_join_elements.induct)
     (auto simp: andThen_def split: if_splits sum.splits)

lemma twelve_data_error_status_first:
  assumes "\<not> DEMO_MODE env" and "p \<noteq> []"
    and "fst (Cache_get c (cacheKey p interval) (now_get w)) = None"
    and "net w (twelveDataUrl env p interval) = Resolved res" and "ok res" and "json res = Inr v"
    and "read_prop v ''status'' = Inr (JStr ''error'')"
    and "read_prop v ''message'' = Inr m"
  shows "http_status (fst (candles_route interval volatility env w c (Some p))) = 500"
proof -
  have "\<exists>text. fetchCandles_try env (net w (twelveDataUrl env p interval)) = Inl (Error text) \<and>
              text \<noteq> ''API_LIMIT_REACHED'' \<and> text \<noteq> ''API_LIMIT''"
    using assms
    by (cases "ToString env m") (auto simp: fetchCandles_try_def andThen_def dest: ToString_error(1))
  then have "\<exists>text. fst (fetchCandles env w c (twelveDataUrl env p interval) p interval)
               = Inl (Error text) \<and> text \<noteq> ''API_LIMIT''"
    by (auto simp: fetchCandles_miss [OF assms(3)] fetchCandles_catch_def)
  then show ?thesis
    using assms(1,2) by (auto simp: candles_route_live reply_of_def)
qed

text \<open>
  C1.  The body with which Twelve Data declares the rate limit has \<^verbatim>\<open>code\<close> 429 and
  \<^verbatim>\<open>status\<close> \<^verbatim>\<open>'error'\<close>.  On it the daily route of the Twelve Data server, in live mode
  with an empty cache, answers 500 \<^verbatim>\<open>SERVER_ERROR\<close>, not 429 \<^verbatim>\<open>API_LIMIT_REACHED\<close>.
\<close>

theorem twelve_data_rate_limit_reply:
  "read_prop rate_limited ''code'' = Inr (JNum (Fin 429)) \<and>
   api_daily (sample_env False) (sample_io (ok_json rate_limited)) (new_Cache 300000)
       (Some ''EURUSD'')
     = (\<lparr>http_status = 500,
         body = Failure ''SERVER_ERROR''
                  ''API_ERROR: You have run out of API credits for the current minute.''\<rparr>,
        new_Cache 300000,
        [CacheGet ''EURUSD-daily'',
         NetworkCall ''https://api.twelvedata.com/time_series?symbol=EUR/USD&interval=1day&outputsize=100&apikey=KEY''])"
  by (simp add: api_daily_def rate_limited_def eval_defs)





section \<open>Properties of the demo generator\<close>















end
